theory Spec2Isabelle
  imports Main "HOL-Library.Sublist"
begin

section \<open>Python values used by bot.py\<close>

text \<open>
  A Python \<open>str\<close> is a sequence of Unicode code points. The transcripts handled by
  \<open>convert_voice_to_move\<close> contain Turkish letters beyond Latin-1, so a string is a list
  of code points, and \<open>ascii\<close> reads an ASCII literal of the source.
\<close>

type_synonym ustr = "nat list"

definition ascii :: "string \<Rightarrow> ustr" where
  "ascii s = map of_char s"

datatype py_error = IndexError | ValueError | OtherError

text \<open>
  The Unicode tables of the Python runtime are not part of the repository. They are a
  parameter, consulted for code points from 128 on only; the ASCII range is written out.
  \<open>u_lower\<close> sees the text before and after the code point, as \<open>str.lower\<close> does for the
  Greek capital sigma.
\<close>

record unicode =
  u_lower :: "ustr \<Rightarrow> nat \<Rightarrow> ustr \<Rightarrow> ustr"
  u_isspace :: "nat \<Rightarrow> bool"
  u_isalnum :: "nat \<Rightarrow> bool"

definition lower_char :: "unicode \<Rightarrow> ustr \<Rightarrow> nat \<Rightarrow> ustr \<Rightarrow> ustr" where
  "lower_char U seen c rest =
     (if c < 128 then (if 65 \<le> c \<and> c \<le> 90 then [c + 32] else [c])
      else u_lower U seen c rest)"

fun lower_from :: "unicode \<Rightarrow> ustr \<Rightarrow> ustr \<Rightarrow> ustr" where
  "lower_from U seen [] = []"
| "lower_from U seen (c # rest) =
     lower_char U seen c rest @ lower_from U (seen @ [c]) rest"

definition lower :: "unicode \<Rightarrow> ustr \<Rightarrow> ustr" where
  "lower U s = lower_from U [] s"

definition isspace :: "unicode \<Rightarrow> nat \<Rightarrow> bool" where
  "isspace U c =
     (if c < 128 then (9 \<le> c \<and> c \<le> 13) \<or> (28 \<le> c \<and> c \<le> 32) else u_isspace U c)"

definition isalnum :: "unicode \<Rightarrow> nat \<Rightarrow> bool" where
  "isalnum U c =
     (if c < 128 then (48 \<le> c \<and> c \<le> 57) \<or> (65 \<le> c \<and> c \<le> 90) \<or> (97 \<le> c \<and> c \<le> 122)
      else u_isalnum U c)"

definition strip :: "unicode \<Rightarrow> ustr \<Rightarrow> ustr" where
  "strip U s = rev (dropWhile (isspace U) (rev (dropWhile (isspace U) s)))"

text \<open>\<open>sub in s\<close> on strings: \<open>sub\<close> occurs in \<open>s\<close> as a contiguous run.\<close>

definition contains :: "ustr \<Rightarrow> ustr \<Rightarrow> bool" where
  "contains sub s = sublist sub s"

text \<open>
  \<open>s.replace(old, new)\<close>: the occurrences of \<open>old\<close> are replaced from the left, without
  overlap; an empty \<open>old\<close> matches before every character and at the end.
\<close>

function replace :: "ustr \<Rightarrow> ustr \<Rightarrow> ustr \<Rightarrow> ustr" where
  "replace old new [] = (if old = [] then new else [])"
| "replace old new (c # cs) =
     (if old = [] then new @ c # replace old new cs
      else if prefix old (c # cs) then new @ replace old new (drop (length old) (c # cs))
      else c # replace old new cs)"
  by pat_completeness auto
termination
  by (relation "measure (\<lambda>(old, new, s). length s)") auto

text \<open>\<open>s.split()\<close>: the maximal runs of characters that are not whitespace.\<close>

fun split_from :: "unicode \<Rightarrow> ustr \<Rightarrow> ustr \<Rightarrow> ustr list" where
  "split_from U cur [] = (if cur = [] then [] else [cur])"
| "split_from U cur (c # cs) =
     (if isspace U c then (if cur = [] then [] else [cur]) @ split_from U [] cs
      else split_from U (cur @ [c]) cs)"

definition split :: "unicode \<Rightarrow> ustr \<Rightarrow> ustr list" where
  "split U s = split_from U [] s"

fun join :: "ustr \<Rightarrow> ustr list \<Rightarrow> ustr" where
  "join sep [] = []"
| "join sep [w] = w"
| "join sep (w # v # ws) = w @ sep @ join sep (v # ws)"

text \<open>\<open>xs[i]\<close> for an index that is not negative: IndexError out of range.\<close>

definition get :: "'a list \<Rightarrow> nat \<Rightarrow> py_error + 'a" where
  "get xs i = (if i < length xs then Inr (xs ! i) else Inl IndexError)"

text \<open>\<open>a and b\<close>: \<open>b\<close> is evaluated, and may raise, only when \<open>a\<close> is true.\<close>

definition and_also :: "py_error + bool \<Rightarrow> py_error + bool \<Rightarrow> py_error + bool" where
  "and_also a b = (case a of Inl e \<Rightarrow> Inl e | Inr x \<Rightarrow> if x then b else Inr False)"

text \<open>\<open>w[i] in s\<close>, for a string \<open>w\<close>: \<open>w[i]\<close> is a string of one character.\<close>

definition char_in :: "ustr \<Rightarrow> nat \<Rightarrow> ustr \<Rightarrow> py_error + bool" where
  "char_in w i s = (case get w i of Inl e \<Rightarrow> Inl e | Inr c \<Rightarrow> Inr (contains [c] s))"

section \<open>convert\_voice\_to\_move\<close>

definition normalize :: "unicode \<Rightarrow> ustr \<Rightarrow> ustr" where
  "normalize U voice_text =
     (let text = strip U (lower U voice_text);
          text = replace [351] (ascii ''s'') text;
          text = replace [305] (ascii ''i'') text;
          text = replace [287] (ascii ''g'') text;
          text = replace [252] (ascii ''u'') text;
          text = replace [246] (ascii ''o'') text;
          text = replace [231] (ascii ''c'') text
      in text)"

text \<open>The dictionary \<open>pieces\<close>, in its insertion order, which \<open>items()\<close> follows.\<close>

definition pieces :: "(ustr \<times> ustr) list" where
  "pieces =
     [(ascii ''at'', ascii ''N''), (ascii ''knight'', ascii ''N''),
      (ascii ''fil'', ascii ''B''), (ascii ''bishop'', ascii ''B''),
      (ascii ''kale'', ascii ''R''), (ascii ''rook'', ascii ''R''),
      (ascii ''vezir'', ascii ''Q''), (ascii ''queen'', ascii ''Q''),
      (ascii ''sah'', ascii ''K''), (ascii ''king'', ascii ''K''),
      (351 # ascii ''ah'', ascii ''K'')]"

definition short_castle_phrase :: "ustr \<Rightarrow> bool" where
  "short_castle_phrase text \<longleftrightarrow>
     contains (107 # 305 # ascii ''sa rok'') text \<or> contains (ascii ''kisa rok'') text
     \<or> contains (ascii ''o-o'') text"

definition long_castle_phrase :: "ustr \<Rightarrow> bool" where
  "long_castle_phrase text \<longleftrightarrow>
     contains (ascii ''uzun rok'') text \<or> contains (ascii ''o-o-o'') text"

text \<open>The loop over \<open>pieces.items()\<close>: the first keyword found is removed, then \<open>break\<close>.\<close>

fun find_piece :: "(ustr \<times> ustr) list \<Rightarrow> ustr \<Rightarrow> ustr option \<times> ustr" where
  "find_piece [] text = (None, text)"
| "find_piece ((tr, en) # rest) text =
     (if contains tr text then (Some en, replace tr [] text) else find_piece rest text)"

definition files :: ustr where
  "files = ascii ''abcdefgh''"

definition ranks :: ustr where
  "ranks = ascii ''12345678''"

definition is_square :: "ustr \<Rightarrow> py_error + bool" where
  "is_square w =
     and_also (Inr (length w = 2)) (and_also (char_in w 0 files) (char_in w 1 ranks))"

definition is_move4 :: "ustr \<Rightarrow> py_error + bool" where
  "is_move4 w =
     and_also (Inr (length w = 4))
       (and_also (char_in w 0 files)
         (and_also (char_in w 1 ranks) (and_also (char_in w 2 files) (char_in w 3 ranks))))"

text \<open>
  The loop over \<open>text.split()\<close>: it either returns a four-character move at once, or
  runs to the end with the squares collected in \<open>coords\<close>.
\<close>

datatype scan = Direct ustr | Coords "ustr list"

fun scan_words :: "unicode \<Rightarrow> ustr list \<Rightarrow> ustr list \<Rightarrow> py_error + scan" where
  "scan_words U coords [] = Inr (Coords coords)"
| "scan_words U coords (word # rest) =
     (let clean_word = filter (isalnum U) word in
      case is_square clean_word of
        Inl e \<Rightarrow> Inl e
      | Inr sq \<Rightarrow>
          if sq then scan_words U (coords @ [clean_word]) rest
          else (case is_move4 clean_word of
                  Inl e \<Rightarrow> Inl e
                | Inr m4 \<Rightarrow> if m4 then Inr (Direct clean_word) else scan_words U coords rest))"

definition truthy :: "ustr option \<Rightarrow> bool" where
  "truthy v = (case v of None \<Rightarrow> False | Some s \<Rightarrow> s \<noteq> [])"

definition build_move :: "ustr option \<Rightarrow> ustr list \<Rightarrow> py_error + ustr option" where
  "build_move piece coords =
     (if length coords = 1 then
        (if truthy piece then
           (case get coords 0 of
              Inl e \<Rightarrow> Inl e
            | Inr c \<Rightarrow> Inr (Some (the piece @ c)))
         else
           (case get coords 0 of
              Inl e \<Rightarrow> Inl e
            | Inr coord \<Rightarrow>
                (case char_in coord 1 (ascii ''34'') of
                   Inl e \<Rightarrow> Inl e
                 | Inr low \<Rightarrow>
                     let piece_rank = (if low then ascii ''2'' else ascii ''7'') in
                     (case get coord 0 of
                        Inl e \<Rightarrow> Inl e
                      | Inr f \<Rightarrow> Inr (Some ([f] @ piece_rank @ coord))))))
      else if length coords = 2 then
        (case get coords 0 of
           Inl e \<Rightarrow> Inl e
         | Inr c0 \<Rightarrow> (case get coords 1 of Inl e \<Rightarrow> Inl e | Inr c1 \<Rightarrow> Inr (Some (c0 @ c1))))
      else Inr None)"

text \<open>The body of the \<open>try\<close>: \<open>Inl\<close> is an exception raised inside it.\<close>

definition convert_try :: "unicode \<Rightarrow> ustr \<Rightarrow> py_error + ustr option" where
  "convert_try U voice_text =
     (let text = normalize U voice_text in
      if short_castle_phrase text then Inr (Some (ascii ''O-O''))
      else if long_castle_phrase text then Inr (Some (ascii ''O-O-O''))
      else
        let (piece, text) = find_piece pieces text;
            text = join (ascii '' '') (split U text)
        in case scan_words U [] (split U text) of
             Inl e \<Rightarrow> Inl e
           | Inr (Direct move) \<Rightarrow> Inr (Some move)
           | Inr (Coords coords) \<Rightarrow> build_move piece coords)"

text \<open>\<open>except Exception\<close>: whatever the body raises, the function returns \<open>None\<close>.\<close>

definition convert_voice_to_move :: "unicode \<Rightarrow> ustr \<Rightarrow> ustr option" where
  "convert_voice_to_move U voice_text =
     (case convert_try U voice_text of Inl e \<Rightarrow> None | Inr r \<Rightarrow> r)"

text \<open>
  The notions the properties below speak of, each a stage of \<open>convert_voice_to_move\<close>:
  the tests of the loop as predicates, the keyword found, the words left after the
  keyword is removed, and the squares among them.
\<close>

definition square_token :: "ustr \<Rightarrow> bool" where
  "square_token w \<longleftrightarrow> is_square w = Inr True"

definition move4_token :: "ustr \<Rightarrow> bool" where
  "move4_token w \<longleftrightarrow> is_move4 w = Inr True"

definition piece_found :: "unicode \<Rightarrow> ustr \<Rightarrow> ustr option" where
  "piece_found U voice_text = fst (find_piece pieces (normalize U voice_text))"

definition clean_words :: "unicode \<Rightarrow> ustr \<Rightarrow> ustr list" where
  "clean_words U voice_text =
     map (filter (isalnum U))
       (split U (join (ascii '' '') (split U (snd (find_piece pieces (normalize U voice_text))))))"

definition square_tokens :: "unicode \<Rightarrow> ustr \<Rightarrow> ustr list" where
  "square_tokens U voice_text = filter square_token (clean_words U voice_text)"

text \<open>Tables that know no character beyond ASCII, to run the functions on ASCII text.\<close>

definition no_unicode :: unicode where
  "no_unicode =
     \<lparr>u_lower = (\<lambda>seen c rest. [c]), u_isspace = (\<lambda>c. False), u_isalnum = (\<lambda>c. False)\<rparr>"

section \<open>The tap keyboard\<close>

text \<open>\<open>str(n)\<close> for an integer that is not negative.\<close>

fun str_nat :: "nat \<Rightarrow> ustr" where
  "str_nat n = (if n < 10 then [48 + n] else str_nat (n div 10) @ [48 + n mod 10])"

record button =
  button_text :: ustr
  callback_data :: ustr

text \<open>
  \<open>create_board_keyboard\<close> reads nothing of the game. \<open>range(7, -1, -1)\<close> is
  \<open>rev [0..<8]\<close>, and \<open>files[file]\<close> is in range for every \<open>file\<close> of \<open>range(8)\<close>.
\<close>

definition create_board_keyboard :: "'g \<Rightarrow> button list list" where
  "create_board_keyboard game =
     map (\<lambda>rank.
            map (\<lambda>file.
                   let square_name = [files ! file] @ str_nat (rank + 1) in
                   \<lparr>button_text = [8204], callback_data = ascii ''square_'' @ square_name\<rparr>)
              [0..<8])
       (rev [0..<8])"

section \<open>The chess library\<close>

text \<open>
  Positions, legality and notation belong to the python-chess library, which is not part
  of the repository. The operations bot.py calls are a parameter: \<open>'b\<close> is the library's
  board, \<open>None\<close> from a parser is its ValueError.
\<close>

type_synonym square = nat

datatype color = Black | White

datatype piece_type = Pawn | Knight | Bishop | Rook | Queen | King

datatype piece = Piece (kind_of: piece_type) (color_of: color)

datatype move = Move (from_square: square) (to_square: square) (promotion: "piece_type option")

record 'b chess_lib =
  new_board :: 'b
  parse_san :: "'b \<Rightarrow> ustr \<Rightarrow> move option"
  from_uci :: "ustr \<Rightarrow> move option"
  legal_moves :: "'b \<Rightarrow> move list"
  push :: "'b \<Rightarrow> move \<Rightarrow> 'b"
  is_game_over :: "'b \<Rightarrow> bool"
  turn :: "'b \<Rightarrow> color"
  piece_at :: "'b \<Rightarrow> square \<Rightarrow> piece option"
  uci :: "move \<Rightarrow> ustr"
  parse_square :: "ustr \<Rightarrow> square option"

section \<open>ChessGame\<close>

text \<open>
  The engine of a game is absent, or a process whose \<open>play\<close> raises or answers a
  position with a result; the move of a result may be \<open>None\<close>. Whether stockfish starts
  is decided outside the program, so the constructor takes the engine it obtained.
\<close>

datatype play_result = PlayRaises | Played "move option"

record 'b ChessGame =
  board :: 'b
  user_id :: int
  user_color :: color
  current_message_id :: "int option"
  selected_square :: "square option"
  engine :: "('b \<Rightarrow> play_result) option"

definition ChessGame_init :: "'b chess_lib \<Rightarrow> int \<Rightarrow> ('b \<Rightarrow> play_result) option \<Rightarrow> 'b ChessGame" where
  "ChessGame_init L uid eng =
     \<lparr>board = new_board L, user_id = uid, user_color = White, current_message_id = None,
      selected_square = None, engine = eng\<rparr>"

text \<open>\<open>random.choice(xs)\<close>, the random number drawn being an input.\<close>

definition choice :: "nat \<Rightarrow> 'a list \<Rightarrow> py_error + 'a" where
  "choice rnd xs = (if xs = [] then Inl IndexError else Inr (xs ! (rnd mod length xs)))"

definition parse_token :: "'b chess_lib \<Rightarrow> 'b \<Rightarrow> ustr \<Rightarrow> move option" where
  "parse_token L b move_str =
     (case parse_san L b move_str of Some m \<Rightarrow> Some m | None \<Rightarrow> from_uci L move_str)"

definition bot_reply :: "'b chess_lib \<Rightarrow> nat \<Rightarrow> 'b ChessGame \<Rightarrow> 'b \<Rightarrow> py_error + move" where
  "bot_reply L rnd game b =
     (case engine game of
        Some play \<Rightarrow>
          (case play b of
             PlayRaises \<Rightarrow> choice rnd (legal_moves L b)
           | Played None \<Rightarrow> Inl OtherError
           | Played (Some bot_move) \<Rightarrow> Inr bot_move)
      | None \<Rightarrow> choice rnd (legal_moves L b))"

text \<open>
  \<open>make_move\<close> returns the game as it leaves it, with the pair the source returns. An
  exception of the bot's part (no move to choose from, or \<open>push\<close> of a result without a
  move) reaches the outer \<open>except\<close> after the user's move is pushed.
\<close>

definition make_move ::
  "'b chess_lib \<Rightarrow> nat \<Rightarrow> 'b ChessGame \<Rightarrow> ustr \<Rightarrow> 'b ChessGame \<times> bool \<times> ustr option" where
  "make_move L rnd game move_str =
     (case parse_token L (board game) move_str of
        None \<Rightarrow> (game, False, None)
      | Some m \<Rightarrow>
          if m \<in> set (legal_moves L (board game)) then
            let b1 = push L (board game) m; game1 = game\<lparr>board := b1\<rparr> in
            if \<not> is_game_over L b1 \<and> turn L b1 \<noteq> user_color game then
              (case bot_reply L rnd game b1 of
                 Inl e \<Rightarrow> (game1, False, None)
               | Inr bot_move \<Rightarrow> (game1\<lparr>board := push L b1 bot_move\<rparr>, True, Some (uci L bot_move)))
            else (game1, True, None)
          else (game, False, None))"

section \<open>The handlers\<close>

text \<open>
  \<open>games\<close> is the dictionary of active games. What the calls to Telegram and to the image
  service do is an input of each handler: whether \<open>get_board_image\<close> returns, the id
  of the message \<open>reply_photo\<close> sends (\<open>None\<close> when it raises), whether \<open>query.answer\<close>
  returns, and the random number drawn.
\<close>

type_synonym 'b games = "int \<rightharpoonup> 'b ChessGame"

record io =
  image_ok :: bool
  sent_id :: "int option"
  answer_ok :: bool
  rnd :: nat

text \<open>
  \<open>newgame_command\<close>: the assignment to \<open>games[user_id]\<close> comes first; an exception of the
  image service or of Telegram ends the handler with the new game in place.
\<close>

definition create_game ::
  "'b chess_lib \<Rightarrow> ('b \<Rightarrow> play_result) option \<Rightarrow> 'b games \<Rightarrow> int \<Rightarrow> 'b games" where
  "create_game L eng games uid = games(uid \<mapsto> ChessGame_init L uid eng)"

definition newgame_command ::
  "'b chess_lib \<Rightarrow> ('b \<Rightarrow> play_result) option \<Rightarrow> io \<Rightarrow> 'b games \<Rightarrow> int \<Rightarrow> 'b games" where
  "newgame_command L eng env games uid =
     (let games1 = create_game L eng games uid;
          game = ChessGame_init L uid eng
      in if image_ok env then
           (case sent_id env of
              None \<Rightarrow> games1
            | Some mid \<Rightarrow> games1(uid \<mapsto> game\<lparr>current_message_id := Some mid\<rparr>))
         else games1)"

text \<open>\<open>s.split(sep)\<close> for a separator of one character.\<close>

fun split_on_from :: "nat \<Rightarrow> ustr \<Rightarrow> ustr \<Rightarrow> ustr list" where
  "split_on_from sep cur [] = [cur]"
| "split_on_from sep cur (c # cs) =
     (if c = sep then cur # split_on_from sep [] cs else split_on_from sep (cur @ [c]) cs)"

definition split_on :: "nat \<Rightarrow> ustr \<Rightarrow> ustr list" where
  "split_on sep s = split_on_from sep [] s"

text \<open>
  The part of a handler after an accepted move: the new board is sent, its message id
  recorded, and a finished game removed. An exception on the way leaves the rest undone.
\<close>

definition publish :: "'b chess_lib \<Rightarrow> io \<Rightarrow> 'b games \<Rightarrow> int \<Rightarrow> 'b ChessGame \<Rightarrow> 'b games" where
  "publish L env games uid game =
     (if image_ok env then
        (case sent_id env of
           None \<Rightarrow> games(uid \<mapsto> game)
         | Some mid \<Rightarrow>
             if is_game_over L (board game) then games(uid := None)
             else games(uid \<mapsto> game\<lparr>current_message_id := Some mid\<rparr>))
      else games(uid \<mapsto> game))"

definition handle_square_selection ::
  "'b chess_lib \<Rightarrow> io \<Rightarrow> 'b games \<Rightarrow> int \<Rightarrow> ustr \<Rightarrow> 'b games" where
  "handle_square_selection L env games uid query_data =
     (case games uid of
        None \<Rightarrow> games
      | Some game \<Rightarrow>
          (case get (split_on 95 query_data) 1 of
             Inl e \<Rightarrow> games
           | Inr data \<Rightarrow>
               (case parse_square L data of
                  None \<Rightarrow> games
                | Some square \<Rightarrow>
                    (case selected_square game of
                       None \<Rightarrow>
                         (case piece_at L (board game) square of
                            None \<Rightarrow> games
                          | Some p \<Rightarrow>
                              if color_of p = user_color game
                              then games(uid \<mapsto> game\<lparr>selected_square := Some square\<rparr>)
                              else games)
                     | Some selected \<Rightarrow>
                         if square = selected
                         then games(uid \<mapsto> game\<lparr>selected_square := None\<rparr>)
                         else
                           let m = Move selected square None in
                           if m \<in> set (legal_moves L (board game)) then
                             let (game1, success, bot_move) = make_move L (rnd env) game (uci L m);
                                 game2 = game1\<lparr>selected_square := None\<rparr>
                             in if success then publish L env games uid game2
                                else games(uid \<mapsto> game2)
                           else if answer_ok env
                           then games(uid \<mapsto> game\<lparr>selected_square := None\<rparr>)
                           else games))))"

text \<open>
  The voice handler also works on the two temporary files of the user. The outcomes of
  the download, of ffmpeg, of the two recognition attempts and of \<open>os.remove\<close> are inputs;
  a step that fails may or may not have written its file.
\<close>

datatype temp_file = Ogg int | Wav int

datatype ffmpeg_result = Converted | CalledProcessError | FileNotFoundError | OtherFailure

record voice_io = io +
  attachment :: bool
  download_ok :: bool
  download_wrote :: bool
  ffmpeg :: ffmpeg_result
  ffmpeg_wrote :: bool
  heard_tr :: "ustr option"
  heard_en :: "ustr option"
  remove_ok :: "temp_file \<Rightarrow> bool"

record 'b world =
  games :: "'b games"
  temp_files :: "temp_file set"

definition recognised :: "voice_io \<Rightarrow> ustr option" where
  "recognised env = (case heard_tr env of Some t \<Rightarrow> Some t | None \<Rightarrow> heard_en env)"

text \<open>The \<open>try\<close> block from the download on: the world as the block is left.\<close>

definition voice_try ::
  "'b chess_lib \<Rightarrow> unicode \<Rightarrow> voice_io \<Rightarrow> 'b world \<Rightarrow> int \<Rightarrow> 'b ChessGame \<Rightarrow> 'b world" where
  "voice_try L U env w uid game =
     (if \<not> download_ok env then
        (if download_wrote env then w\<lparr>temp_files := insert (Ogg uid) (temp_files w)\<rparr> else w)
      else
        let w1 = w\<lparr>temp_files := insert (Ogg uid) (temp_files w)\<rparr> in
        if ffmpeg env \<noteq> Converted then
          (if ffmpeg_wrote env then w1\<lparr>temp_files := insert (Wav uid) (temp_files w1)\<rparr> else w1)
        else
          let w2 = w1\<lparr>temp_files := insert (Wav uid) (temp_files w1)\<rparr> in
          (case recognised env of
             None \<Rightarrow> w2
           | Some voice_text \<Rightarrow>
               (case convert_voice_to_move U voice_text of
                  None \<Rightarrow> w2
                | Some move_text \<Rightarrow>
                    let (game1, success, bot_move) = make_move L (rnd env) game move_text in
                    if success
                    then w2\<lparr>games := publish L (io.truncate env) (games w2) uid game1\<rparr>
                    else w2\<lparr>games := (games w2)(uid \<mapsto> game1)\<rparr>)))"

text \<open>
  The \<open>finally\<close> block: both removals stand in one \<open>try\<close>, so the first \<open>os.remove\<close> that
  raises ends the clean-up.
\<close>

definition remove_if_exists :: "voice_io \<Rightarrow> temp_file \<Rightarrow> temp_file set \<Rightarrow> py_error + temp_file set" where
  "remove_if_exists env p fs =
     (if p \<in> fs then (if remove_ok env p then Inr (fs - {p}) else Inl OtherError) else Inr fs)"

definition cleanup :: "voice_io \<Rightarrow> int \<Rightarrow> temp_file set \<Rightarrow> temp_file set" where
  "cleanup env uid fs =
     (case remove_if_exists env (Ogg uid) fs of
        Inl e \<Rightarrow> fs
      | Inr fs1 \<Rightarrow> (case remove_if_exists env (Wav uid) fs1 of Inl e \<Rightarrow> fs1 | Inr fs2 \<Rightarrow> fs2))"

definition handle_voice_message ::
  "'b chess_lib \<Rightarrow> unicode \<Rightarrow> voice_io \<Rightarrow> 'b world \<Rightarrow> int \<Rightarrow> 'b world" where
  "handle_voice_message L U env w uid =
     (case games w uid of
        None \<Rightarrow> w
      | Some game \<Rightarrow>
          if \<not> attachment env then w
          else
            let w1 = voice_try L U env w uid game in
            w1\<lparr>temp_files := cleanup env uid (temp_files w1)\<rparr>)"

text \<open>Whether the handler gets as far as the download.\<close>

definition reaches_download :: "voice_io \<Rightarrow> 'b world \<Rightarrow> int \<Rightarrow> bool" where
  "reaches_download env w uid \<longleftrightarrow> games w uid \<noteq> None \<and> attachment env"

section \<open>The handlers registered by main\<close>

text \<open>
  An update is handled by the first registered handler whose filter accepts it, and by
  none when no filter does. A command is a message whose text starts with a bot command;
  its name is compared in lower case.
\<close>

datatype update =
  Command ustr "ustr list" | TextMessage ustr | VoiceMessage | AudioMessage | CallbackQuery ustr

datatype update_filter = CommandFilter ustr | VoiceOrAudio | TextNotCommand

datatype callback = StartCommand | HelpCommand | NewgameCommand | HandleVoiceMessage | HandleMessage

definition main_handlers :: "(update_filter \<times> callback) list" where
  "main_handlers =
     [(CommandFilter (ascii ''start''), StartCommand),
      (CommandFilter (ascii ''help''), HelpCommand),
      (CommandFilter (ascii ''newgame''), NewgameCommand),
      (VoiceOrAudio, HandleVoiceMessage),
      (TextNotCommand, HandleMessage)]"

fun check_update :: "update_filter \<Rightarrow> update \<Rightarrow> bool" where
  "check_update (CommandFilter c) (Command name args) = (lower no_unicode name = c)"
| "check_update VoiceOrAudio VoiceMessage = True"
| "check_update VoiceOrAudio AudioMessage = True"
| "check_update TextNotCommand (TextMessage t) = True"
| "check_update f u = False"

fun dispatch :: "(update_filter \<times> callback) list \<Rightarrow> update \<Rightarrow> callback option" where
  "dispatch [] u = None"
| "dispatch ((f, h) # rest) u = (if check_update f u then Some h else dispatch rest u)"




section \<open>The selection invariant\<close>

text \<open>A selected square holds a piece of the user's colour.\<close>

definition selection_ok :: "'b chess_lib \<Rightarrow> 'b ChessGame \<Rightarrow> bool" where
  "selection_ok L game =
     (case selected_square game of
        None \<Rightarrow> True
      | Some s \<Rightarrow>
          (case piece_at L (board game) s of
             None \<Rightarrow> False
           | Some p \<Rightarrow> color_of p = user_color game))"

section \<open>A library instance to run the handlers\<close>

text \<open>
  To run \<open>make_move\<close> and the handlers on concrete games, the library parameter needs a
  value. \<open>pawn_chess\<close> starts from the real starting position and numbers and names the
  squares as python-chess does (a1 is 0, h8 is 63), but of the moves it knows the pawn
  advances only: no capture, no promotion, no move of another piece. Its game is over when
  no pawn can advance. It reads a pawn advance from its target square (e4) or from both
  squares (e2e4).
\<close>

definition SQUARE_NAMES :: "ustr list" where
  "SQUARE_NAMES = concat (map (\<lambda>r. map (\<lambda>f. [f, r]) files) ranks)"

fun index_of :: "'a \<Rightarrow> 'a list \<Rightarrow> nat option" where
  "index_of x [] = None"
| "index_of x (y # ys) = (if x = y then Some 0 else map_option Suc (index_of x ys))"

record position =
  placement :: "piece option list"
  side :: color

definition back_rank :: "piece_type list" where
  "back_rank = [Rook, Knight, Bishop, Queen, King, Bishop, Knight, Rook]"

definition start_position :: position where
  "start_position =
     \<lparr>placement =
        map (\<lambda>k. Some (Piece k White)) back_rank @ replicate 8 (Some (Piece Pawn White))
        @ replicate 32 None
        @ replicate 8 (Some (Piece Pawn Black)) @ map (\<lambda>k. Some (Piece k Black)) back_rank,
      side = White\<rparr>"

definition pawn_piece_at :: "position \<Rightarrow> square \<Rightarrow> piece option" where
  "pawn_piece_at p s = (if s < length (placement p) then placement p ! s else None)"

definition pawn_moves_from :: "position \<Rightarrow> square \<Rightarrow> move list" where
  "pawn_moves_from p s =
     (if pawn_piece_at p s = Some (Piece Pawn (side p)) \<and> 1 \<le> s div 8 \<and> s div 8 \<le> 6 then
        let one = (if side p = White then s + 8 else s - 8);
            two = (if side p = White then s + 16 else s - 16);
            home_rank = (if side p = White then 1 else 6);
            final_rank = (if side p = White then 6 else 1)
        in if s div 8 \<noteq> final_rank \<and> pawn_piece_at p one = None then
             Move s one None
             # (if s div 8 = home_rank \<and> pawn_piece_at p two = None then [Move s two None] else [])
           else []
      else [])"

definition pawn_legal_moves :: "position \<Rightarrow> move list" where
  "pawn_legal_moves p = concat (map (pawn_moves_from p) [0..<64])"

definition pawn_push :: "position \<Rightarrow> move \<Rightarrow> position" where
  "pawn_push p m =
     \<lparr>placement = (placement p)[to_square m := pawn_piece_at p (from_square m),
                                  from_square m := None],
      side = (if side p = White then Black else White)\<rparr>"

definition pawn_uci :: "move \<Rightarrow> ustr" where
  "pawn_uci m = SQUARE_NAMES ! from_square m @ SQUARE_NAMES ! to_square m"

definition pawn_from_uci :: "ustr \<Rightarrow> move option" where
  "pawn_from_uci s =
     (if length s = 4 then
        (case (index_of (take 2 s) SQUARE_NAMES, index_of (drop 2 s) SQUARE_NAMES) of
           (Some f, Some t) \<Rightarrow> Some (Move f t None)
         | _ \<Rightarrow> None)
      else None)"

definition pawn_parse_san :: "position \<Rightarrow> ustr \<Rightarrow> move option" where
  "pawn_parse_san p tok =
     (case filter (\<lambda>m. pawn_uci m = tok \<or> SQUARE_NAMES ! to_square m = tok) (pawn_legal_moves p) of
        [m] \<Rightarrow> Some m
      | _ \<Rightarrow> None)"

definition pawn_chess :: "position chess_lib" where
  "pawn_chess =
     \<lparr>new_board = start_position,
      parse_san = pawn_parse_san,
      from_uci = pawn_from_uci,
      legal_moves = pawn_legal_moves,
      push = pawn_push,
      is_game_over = (\<lambda>p. pawn_legal_moves p = []),
      turn = side,
      piece_at = pawn_piece_at,
      uci = pawn_uci,
      parse_square = (\<lambda>name. index_of name SQUARE_NAMES)\<rparr>"

text \<open>Telegram and the image service answering, and a voice message that is heard.\<close>

definition io_fine :: io where
  "io_fine = \<lparr>image_ok = True, sent_id = Some 100, answer_ok = True, rnd = 0\<rparr>"

definition voice_heard :: "ustr \<Rightarrow> voice_io" where
  "voice_heard transcript =
     \<lparr>image_ok = True, sent_id = Some 101, answer_ok = True, rnd = 0,
      attachment = True, download_ok = True, download_wrote = True, ffmpeg = Converted,
      ffmpeg_wrote = True, heard_tr = Some transcript, heard_en = None,
      remove_ok = (\<lambda>p. True)\<rparr>"

text \<open>User 7 has started a game, and no temporary file exists.\<close>

definition started :: "position world" where
  "started = \<lparr>games = newgame_command pawn_chess None io_fine Map.empty 7, temp_files = {}\<rparr>"

text \<open>Then the user has tapped e2, which selects the pawn on it.\<close>

definition tapped :: "position world" where
  "tapped =
     \<lparr>games = handle_square_selection pawn_chess io_fine (games started) 7 (ascii ''square_e2''),
      temp_files = {}\<rparr>"


section \<open>Properties of convert\_voice\_to\_move\<close>

lemma get_in_range: "i < length xs \<Longrightarrow> get xs i = Inr (xs ! i)"
  by (simp add: get_def)

lemma char_in_in_range: "i < length w \<Longrightarrow> char_in w i s = Inr (contains [w ! i] s)"
  by (simp add: char_in_def get_in_range)

lemma is_square_value:
  "is_square w = Inr (length w = 2 \<and> contains [w ! 0] files \<and> contains [w ! 1] ranks)"
  by (simp add: is_square_def and_also_def char_in_in_range)

lemma is_move4_value:
  "is_move4 w = Inr (length w = 4 \<and> contains [w ! 0] files \<and> contains [w ! 1] ranks
     \<and> contains [w ! 2] files \<and> contains [w ! 3] ranks)"
  by (simp add: is_move4_def and_also_def char_in_in_range)

lemma square_token_length: "square_token w \<Longrightarrow> length w = 2"
  by (simp add: square_token_def is_square_value)

lemma scan_words_total: "\<exists>r. scan_words U acc ws = Inr r"
  by (induction ws arbitrary: acc) (auto simp: Let_def is_square_value is_move4_value)

lemma scan_words_squares:
  "scan_words U acc ws = Inr (Coords cs) \<Longrightarrow> list_all square_token acc \<Longrightarrow> list_all square_token cs"
  by (induction ws arbitrary: acc)
     (auto simp: Let_def square_token_def is_square_value is_move4_value split: if_splits)

lemma build_move_total: "list_all square_token cs \<Longrightarrow> \<exists>r. build_move piece cs = Inr r"
  by (cases cs; cases "tl cs")
     (auto simp: build_move_def get_def char_in_def Let_def dest: square_token_length)

text \<open>
  C9. \<open>convert_voice_to_move\<close> is total: on every string, the empty one and those
  without a letter or digit included, the body of its \<open>try\<close> ends without raising, with a
  move token or \<open>None\<close>, and that is what the function returns. Termination is part of
  the definitions: every loop is a recursion over a list that gets shorter.
\<close>

theorem convert_total:
  "\<exists>r. convert_try U voice_text = Inr r \<and> convert_voice_to_move U voice_text = r"
proof -
  have "\<exists>r. convert_try U voice_text = Inr r"
  proof (cases "short_castle_phrase (normalize U voice_text)
                 \<or> long_castle_phrase (normalize U voice_text)")
    case True
    then show ?thesis by (auto simp: convert_try_def Let_def)
  next
    case False
    obtain piece stripped where fp: "find_piece pieces (normalize U voice_text) = (piece, stripped)"
      by (cases "find_piece pieces (normalize U voice_text)")
    obtain r where sc: "scan_words U [] (split U (join (ascii '' '') (split U stripped))) = Inr r"
      using scan_words_total by blast
    show ?thesis
    proof (cases r)
      case (Direct m)
      with False fp sc show ?thesis by (simp add: convert_try_def Let_def)
    next
      case (Coords cs)
      with sc have "list_all square_token cs" using scan_words_squares by fastforce
      then obtain r' where "build_move piece cs = Inr r'" using build_move_total by blast
      with False fp sc Coords show ?thesis by (simp add: convert_try_def Let_def)
    qed
  qed
  then show ?thesis by (auto simp: convert_voice_to_move_def)
qed

text \<open>
  C3. A transcript with "o-o-o" should give the long castle "O-O-O". The test for "o-o"
  stands first and every text with "o-o-o" passes it, so the transcript "o-o-o" gives
  the short castle "O-O".
\<close>

theorem long_castle_shadowed:
  "convert_voice_to_move U (ascii ''o-o-o'') = Some (ascii ''O-O'')"
  by (simp add: convert_voice_to_move_def convert_try_def normalize_def ascii_def lower_def
      lower_char_def strip_def isspace_def short_castle_phrase_def contains_def)

text \<open>
  The other castle phrases do what is expected of them. A phrase of plain ASCII survives
  lowering, stripping and the replacement of the Turkish letters, so a transcript with
  "kisa rok" or "o-o" gives the short castle, and one with "uzun rok" and no short-castle
  phrase gives the long castle.
\<close>

lemma lower_from_append:
  "\<exists>x. lower_from U s (a @ b) = x @ lower_from U (s @ a) b"
proof (induction a arbitrary: s)
  case Nil
  show ?case by simp
next
  case (Cons c a)
  from Cons [of "s @ [c]"] obtain x where "lower_from U (s @ [c]) (a @ b) = x @ lower_from U (s @ c # a) b"
    by auto
  then show ?case by simp
qed

lemma lower_from_plain:
  "list_all (\<lambda>c. c < 65 \<or> (90 < c \<and> c < 128)) p \<Longrightarrow>
   lower_from U s (p @ b) = p @ lower_from U (s @ p) b"
  by (induction p arbitrary: s) (auto simp: lower_char_def)

lemma contains_lower:
  assumes "contains p t" and "list_all (\<lambda>c. c < 65 \<or> (90 < c \<and> c < 128)) p"
  shows "contains p (lower U t)"
proof -
  from assms(1) obtain a b where "t = a @ p @ b" by (auto simp: contains_def sublist_def)
  moreover obtain x where "lower_from U [] (a @ p @ b) = x @ lower_from U a (p @ b)"
    using lower_from_append [of U "[]" a "p @ b"] by auto
  ultimately have "lower U t = x @ p @ lower_from U (a @ p) b"
    by (simp add: lower_def lower_from_plain [OF assms(2)])
  then show ?thesis by (simp add: contains_def)
qed

lemma contains_dropWhile:
  assumes "contains p s" and "p \<noteq> []" and "\<not> P (hd p)"
  shows "contains p (dropWhile P s)"
proof -
  from assms(1) obtain a b where s: "s = a @ p @ b" by (auto simp: contains_def sublist_def)
  from assms(2,3) have "dropWhile P (p @ b) = p @ b" by (cases p) simp_all
  then show ?thesis
    unfolding s contains_def by (cases "\<forall>x\<in>set a. P x") (simp_all add: dropWhile_append)
qed

lemma contains_strip:
  assumes "contains p s" and "p \<noteq> []" and "\<not> isspace U (hd p)" and "\<not> isspace U (last p)"
  shows "contains p (strip U s)"
proof -
  have "contains p (dropWhile (isspace U) s)"
    using assms(1-3) by (rule contains_dropWhile)
  then have "contains (rev p) (rev (dropWhile (isspace U) s))"
    by (simp add: contains_def)
  moreover have "rev p \<noteq> []" "\<not> isspace U (hd (rev p))"
    using assms(2,4) by (simp_all add: hd_rev)
  ultimately have "contains (rev p) (dropWhile (isspace U) (rev (dropWhile (isspace U) s)))"
    by (rule contains_dropWhile)
  then show ?thesis by (simp add: strip_def contains_def sublist_rev_right)
qed

lemma replace_single: "replace [x] [y] s = map (\<lambda>c. if c = x then y else c) s"
  by (induction s) auto

lemma contains_map:
  assumes "contains p s" and "map f p = p"
  shows "contains p (map f s)"
proof -
  from assms(1) obtain a b where "s = a @ p @ b" by (auto simp: contains_def sublist_def)
  with assms(2) have "map f s = map f a @ p @ map f b" by simp
  then show ?thesis by (simp add: contains_def)
qed

lemma contains_replace_single:
  "contains p s \<Longrightarrow> x \<notin> set p \<Longrightarrow> contains p (replace [x] [y] s)"
  unfolding replace_single by (rule contains_map) (auto intro: map_idI)

lemma contains_normalize:
  assumes "contains p t" and "list_all (\<lambda>c. c < 65 \<or> (90 < c \<and> c < 128)) p"
    and "p \<noteq> []" and "\<not> isspace U (hd p)" and "\<not> isspace U (last p)"
  shows "contains p (normalize U t)"
proof -
  have "contains p (strip U (lower U t))"
    using contains_lower [OF assms(1,2)] assms(3-5) by (rule contains_strip)
  moreover have "\<And>x. 128 \<le> x \<Longrightarrow> x \<notin> set p"
    using assms(2) by (auto simp: list_all_iff)
  ultimately show ?thesis
    by (simp add: normalize_def ascii_def contains_replace_single)
qed

lemma short_castle_returned:
  assumes "contains (ascii ''kisa rok'') t \<or> contains (ascii ''o-o'') t"
  shows "convert_voice_to_move U t = Some (ascii ''O-O'')"
proof -
  have "contains (ascii ''kisa rok'') (normalize U t) \<or> contains (ascii ''o-o'') (normalize U t)"
    using assms
    by (auto intro!: contains_normalize simp: ascii_def isspace_def)
  then show ?thesis
    by (auto simp: convert_voice_to_move_def convert_try_def short_castle_phrase_def Let_def)
qed

lemma long_castle_returned:
  assumes "contains (ascii ''uzun rok'') t"
    and "\<not> short_castle_phrase (normalize U t)"
  shows "convert_voice_to_move U t = Some (ascii ''O-O-O'')"
proof -
  have "contains (ascii ''uzun rok'') (normalize U t)"
    using assms(1) by (auto intro!: contains_normalize simp: ascii_def isspace_def)
  with assms(2) show ?thesis
    by (simp add: convert_voice_to_move_def convert_try_def long_castle_phrase_def Let_def)
qed

lemma contains_single: "contains [c] s \<longleftrightarrow> c \<in> set s"
  by (induction s) (auto simp: contains_def sublist_Cons_right)

lemma scan_words_coords:
  "\<not> list_ex move4_token (map (filter (isalnum U)) ws) \<Longrightarrow>
   scan_words U acc ws = Inr (Coords (acc @ filter square_token (map (filter (isalnum U)) ws)))"
  by (induction ws arbitrary: acc)
     (auto simp: Let_def square_token_def move4_token_def is_square_value is_move4_value)

lemma find_piece_value: "fst (find_piece ps s) = Some p \<Longrightarrow> p \<in> snd ` set ps"
  by (induction ps s rule: find_piece.induct) (auto split: if_splits)

lemma piece_found_letter:
  "piece_found U t = Some p \<Longrightarrow> p \<in> set (map ascii [''N'', ''B'', ''R'', ''Q'', ''K''])"
  unfolding piece_found_def by (drule find_piece_value) (auto simp: pieces_def)

lemma truthy_piece_found: "truthy (piece_found U t) \<longleftrightarrow> piece_found U t \<noteq> None"
  by (cases "piece_found U t") (auto simp: truthy_def ascii_def dest!: piece_found_letter)

lemma convert_try_late:
  assumes "\<not> short_castle_phrase (normalize U t)" and "\<not> long_castle_phrase (normalize U t)"
    and "\<not> list_ex move4_token (clean_words U t)"
  shows "convert_try U t = build_move (piece_found U t) (square_tokens U t)"
proof -
  obtain piece stripped where fp: "find_piece pieces (normalize U t) = (piece, stripped)"
    by (cases "find_piece pieces (normalize U t)")
  from assms(3) fp
  have "scan_words U [] (split U (join (ascii '' '') (split U stripped)))
      = Inr (Coords (square_tokens U t))"
    by (simp add: scan_words_coords clean_words_def square_tokens_def)
  with assms(1,2) fp show ?thesis
    by (simp add: convert_try_def Let_def piece_found_def)
qed

lemma build_move_one:
  "square_token sq \<Longrightarrow> build_move piece [sq] =
     Inr (Some (if truthy piece then the piece @ sq
                else [sq ! 0] @ (if sq ! 1 \<in> set (ascii ''34'') then ascii ''2'' else ascii ''7'') @ sq))"
  by (frule square_token_length)
     (simp add: build_move_def get_def char_in_def contains_single)

text \<open>
  C5, as amended. For a transcript with no castle phrase and no four-character move among
  its words, from which exactly one square remains after the keyword is removed: when a
  piece keyword was found the result is the piece letter followed by the square;
  otherwise it is a pawn move from the square's own file, from rank 2 when the square is
  on rank 3 or 4 and from rank 7 otherwise, to the square.
\<close>

theorem single_square_move:
  assumes "\<not> short_castle_phrase (normalize U t)" and "\<not> long_castle_phrase (normalize U t)"
    and "\<not> list_ex move4_token (clean_words U t)"
    and "square_tokens U t = [sq]"
  shows "convert_voice_to_move U t =
     Some (case piece_found U t of
             Some p \<Rightarrow> p @ sq
           | None \<Rightarrow> [sq ! 0] @ (if sq ! 1 \<in> set (ascii ''34'') then ascii ''2'' else ascii ''7'') @ sq)"
proof -
  have "sq \<in> set (square_tokens U t)" using assms(4) by simp
  then have sq: "square_token sq" by (simp add: square_tokens_def)
  have "convert_try U t = build_move (piece_found U t) [sq]"
    using convert_try_late [OF assms(1-3)] assms(4) by simp
  with sq have "convert_voice_to_move U t =
     Some (if piece_found U t \<noteq> None then the (piece_found U t) @ sq
           else [sq ! 0] @ (if sq ! 1 \<in> set (ascii ''34'') then ascii ''2'' else ascii ''7'') @ sq)"
    by (simp add: convert_voice_to_move_def build_move_one truthy_piece_found)
  then show ?thesis by (cases "piece_found U t") simp_all
qed

theorem single_square_move_witness:
  "\<not> short_castle_phrase (normalize no_unicode (ascii ''at e4''))
   \<and> \<not> long_castle_phrase (normalize no_unicode (ascii ''at e4''))
   \<and> \<not> list_ex move4_token (clean_words no_unicode (ascii ''at e4''))
   \<and> square_tokens no_unicode (ascii ''at e4'') = [ascii ''e4'']
   \<and> convert_voice_to_move no_unicode (ascii ''at e4'') = Some (ascii ''Ne4'')
   \<and> \<not> short_castle_phrase (normalize no_unicode (ascii ''e5''))
   \<and> \<not> long_castle_phrase (normalize no_unicode (ascii ''e5''))
   \<and> \<not> list_ex move4_token (clean_words no_unicode (ascii ''e5''))
   \<and> square_tokens no_unicode (ascii ''e5'') = [ascii ''e5'']
   \<and> convert_voice_to_move no_unicode (ascii ''e5'') = Some (ascii ''e7e5'')"
proof -
  have a1: "\<not> short_castle_phrase (normalize no_unicode (ascii ''at e4''))"
    and a2: "\<not> long_castle_phrase (normalize no_unicode (ascii ''at e4''))"
    and a3: "\<not> list_ex move4_token (clean_words no_unicode (ascii ''at e4''))"
    and a4: "square_tokens no_unicode (ascii ''at e4'') = [ascii ''e4'']"
    and a5: "piece_found no_unicode (ascii ''at e4'') = Some (ascii ''N'')"
    by code_simp+
  have b1: "\<not> short_castle_phrase (normalize no_unicode (ascii ''e5''))"
    and b2: "\<not> long_castle_phrase (normalize no_unicode (ascii ''e5''))"
    and b3: "\<not> list_ex move4_token (clean_words no_unicode (ascii ''e5''))"
    and b4: "square_tokens no_unicode (ascii ''e5'') = [ascii ''e5'']"
    and b5: "piece_found no_unicode (ascii ''e5'') = None"
    by code_simp+
  have a: "convert_voice_to_move no_unicode (ascii ''at e4'') = Some (ascii ''Ne4'')"
    using single_square_move [OF a1 a2 a3 a4] unfolding a5 by (simp add: ascii_def)
  have b: "convert_voice_to_move no_unicode (ascii ''e5'') = Some (ascii ''e7e5'')"
    using single_square_move [OF b1 b2 b3 b4] unfolding b5 by (simp add: ascii_def)
  from a1 a2 a3 a4 a b1 b2 b3 b4 b show ?thesis by blast
qed

text \<open>
  C5 as stated fails. From "e4 a1b2" exactly one square remains and no keyword is found,
  and the result is the four-character word "a1b2", not the pawn move "e2e4"; from
  "o-o e4" exactly one square remains too, and the result is the castle "O-O".
\<close>

theorem single_square_overridden:
  "square_tokens no_unicode (ascii ''e4 a1b2'') = [ascii ''e4'']
   \<and> piece_found no_unicode (ascii ''e4 a1b2'') = None
   \<and> convert_voice_to_move no_unicode (ascii ''e4 a1b2'') = Some (ascii ''a1b2'')
   \<and> convert_voice_to_move no_unicode (ascii ''e4 a1b2'') \<noteq> Some (ascii ''e2e4'')
   \<and> square_tokens no_unicode (ascii ''o-o e4'') = [ascii ''e4'']
   \<and> piece_found no_unicode (ascii ''o-o e4'') = None
   \<and> convert_voice_to_move no_unicode (ascii ''o-o e4'') = Some (ascii ''O-O'')
   \<and> convert_voice_to_move no_unicode (ascii ''o-o e4'') \<noteq> Some (ascii ''e2e4'')"
  by code_simp

text \<open>
  C6. For a transcript with no castle phrase and no four-character move among its words:
  when exactly two squares remain the result is the two joined in their order, and when
  none or more than two remain the result is \<open>None\<close>.
\<close>

theorem two_squares_or_none:
  assumes "\<not> short_castle_phrase (normalize U t)" and "\<not> long_castle_phrase (normalize U t)"
    and "\<not> list_ex move4_token (clean_words U t)"
  shows "(square_tokens U t = [a, b] \<longrightarrow> convert_voice_to_move U t = Some (a @ b))
     \<and> (length (square_tokens U t) = 0 \<or> 2 < length (square_tokens U t)
          \<longrightarrow> convert_voice_to_move U t = None)"
  using convert_try_late [OF assms]
  by (auto simp: convert_voice_to_move_def build_move_def get_def)

theorem two_squares_or_none_witness:
  "\<not> short_castle_phrase (normalize no_unicode (ascii ''e2 e4''))
   \<and> \<not> long_castle_phrase (normalize no_unicode (ascii ''e2 e4''))
   \<and> \<not> list_ex move4_token (clean_words no_unicode (ascii ''e2 e4''))
   \<and> square_tokens no_unicode (ascii ''e2 e4'') = [ascii ''e2'', ascii ''e4'']
   \<and> convert_voice_to_move no_unicode (ascii ''e2 e4'') = Some (ascii ''e2'' @ ascii ''e4'')
   \<and> \<not> short_castle_phrase (normalize no_unicode (ascii ''a1 b2 c3''))
   \<and> \<not> long_castle_phrase (normalize no_unicode (ascii ''a1 b2 c3''))
   \<and> \<not> list_ex move4_token (clean_words no_unicode (ascii ''a1 b2 c3''))
   \<and> 2 < length (square_tokens no_unicode (ascii ''a1 b2 c3''))
   \<and> convert_voice_to_move no_unicode (ascii ''a1 b2 c3'') = None"
proof -
  have a1: "\<not> short_castle_phrase (normalize no_unicode (ascii ''e2 e4''))"
    and a2: "\<not> long_castle_phrase (normalize no_unicode (ascii ''e2 e4''))"
    and a3: "\<not> list_ex move4_token (clean_words no_unicode (ascii ''e2 e4''))"
    and a4: "square_tokens no_unicode (ascii ''e2 e4'') = [ascii ''e2'', ascii ''e4'']"
    by code_simp+
  have b1: "\<not> short_castle_phrase (normalize no_unicode (ascii ''a1 b2 c3''))"
    and b2: "\<not> long_castle_phrase (normalize no_unicode (ascii ''a1 b2 c3''))"
    and b3: "\<not> list_ex move4_token (clean_words no_unicode (ascii ''a1 b2 c3''))"
    and b4: "2 < length (square_tokens no_unicode (ascii ''a1 b2 c3''))"
    by code_simp+
  have a: "convert_voice_to_move no_unicode (ascii ''e2 e4'') = Some (ascii ''e2'' @ ascii ''e4'')"
    using two_squares_or_none [OF a1 a2 a3, of "ascii ''e2''" "ascii ''e4''"] a4 by blast
  have b: "convert_voice_to_move no_unicode (ascii ''a1 b2 c3'') = None"
    using two_squares_or_none [OF b1 b2 b3] b4 by blast
  from a1 a2 a3 a4 a b1 b2 b3 b4 b show ?thesis by blast
qed

section \<open>Properties of the keyboard\<close>

lemma keyboard_callbacks:
  "map (map callback_data) (create_board_keyboard game) =
     map (map (\<lambda>n. ascii ''square_'' @ ascii n))
       [[''a8'', ''b8'', ''c8'', ''d8'', ''e8'', ''f8'', ''g8'', ''h8''],
        [''a7'', ''b7'', ''c7'', ''d7'', ''e7'', ''f7'', ''g7'', ''h7''],
        [''a6'', ''b6'', ''c6'', ''d6'', ''e6'', ''f6'', ''g6'', ''h6''],
        [''a5'', ''b5'', ''c5'', ''d5'', ''e5'', ''f5'', ''g5'', ''h5''],
        [''a4'', ''b4'', ''c4'', ''d4'', ''e4'', ''f4'', ''g4'', ''h4''],
        [''a3'', ''b3'', ''c3'', ''d3'', ''e3'', ''f3'', ''g3'', ''h3''],
        [''a2'', ''b2'', ''c2'', ''d2'', ''e2'', ''f2'', ''g2'', ''h2''],
        [''a1'', ''b1'', ''c1'', ''d1'', ''e1'', ''f1'', ''g1'', ''h1'']]"
  by code_simp

lemma keyboard_shape:
  "length (create_board_keyboard game) = 8
   \<and> map length (create_board_keyboard game) = replicate 8 8"
  by code_simp

lemma keyboard_squares:
  "concat (map (map callback_data) (rev (create_board_keyboard game)))
     = map (\<lambda>n. ascii ''square_'' @ n) SQUARE_NAMES"
  by code_simp

lemma ascii_inject: "ascii a = ascii b \<longleftrightarrow> a = b"
  unfolding ascii_def by (rule inj_eq [OF inj_mapI]) (simp add: inj_def)

lemma keyboard_distinct:
  "distinct (concat (map (map callback_data) (create_board_keyboard game)))"
proof -
  have "concat (map (map callback_data) (create_board_keyboard game))
      = map (\<lambda>n. ascii ''square_'' @ ascii n)
         (concat
       [[''a8'', ''b8'', ''c8'', ''d8'', ''e8'', ''f8'', ''g8'', ''h8''],
        [''a7'', ''b7'', ''c7'', ''d7'', ''e7'', ''f7'', ''g7'', ''h7''],
        [''a6'', ''b6'', ''c6'', ''d6'', ''e6'', ''f6'', ''g6'', ''h6''],
        [''a5'', ''b5'', ''c5'', ''d5'', ''e5'', ''f5'', ''g5'', ''h5''],
        [''a4'', ''b4'', ''c4'', ''d4'', ''e4'', ''f4'', ''g4'', ''h4''],
        [''a3'', ''b3'', ''c3'', ''d3'', ''e3'', ''f3'', ''g3'', ''h3''],
        [''a2'', ''b2'', ''c2'', ''d2'', ''e2'', ''f2'', ''g2'', ''h2''],
        [''a1'', ''b1'', ''c1'', ''d1'', ''e1'', ''f1'', ''g1'', ''h1'']])"
    unfolding keyboard_callbacks by (simp only: map_concat)
  moreover have "inj (\<lambda>n. ascii ''square_'' @ ascii n)"
    by (simp add: inj_def ascii_inject)
  ultimately show ?thesis
    by (simp only: distinct_map) (simp add: inj_on_def ascii_inject)
qed

text \<open>
  C10. For every game the keyboard is a grid of 8 rows of 8 buttons. The rows run from
  rank 8 down to rank 1, the buttons of a row from file a to file h, and the callback
  data of a button is "square\_" followed by the name of its square. The 64 callback
  data are distinct; read from the last row up, they are those of the 64 squares of the
  board, a1 to h8.
\<close>

theorem keyboard_grid:
  "length (create_board_keyboard game) = 8
   \<and> map length (create_board_keyboard game) = replicate 8 8
   \<and> map (map callback_data) (create_board_keyboard game) =
       map (map (\<lambda>n. ascii ''square_'' @ ascii n))
       [[''a8'', ''b8'', ''c8'', ''d8'', ''e8'', ''f8'', ''g8'', ''h8''],
        [''a7'', ''b7'', ''c7'', ''d7'', ''e7'', ''f7'', ''g7'', ''h7''],
        [''a6'', ''b6'', ''c6'', ''d6'', ''e6'', ''f6'', ''g6'', ''h6''],
        [''a5'', ''b5'', ''c5'', ''d5'', ''e5'', ''f5'', ''g5'', ''h5''],
        [''a4'', ''b4'', ''c4'', ''d4'', ''e4'', ''f4'', ''g4'', ''h4''],
        [''a3'', ''b3'', ''c3'', ''d3'', ''e3'', ''f3'', ''g3'', ''h3''],
        [''a2'', ''b2'', ''c2'', ''d2'', ''e2'', ''f2'', ''g2'', ''h2''],
        [''a1'', ''b1'', ''c1'', ''d1'', ''e1'', ''f1'', ''g1'', ''h1'']]
   \<and> distinct (concat (map (map callback_data) (create_board_keyboard game)))
   \<and> concat (map (map callback_data) (rev (create_board_keyboard game)))
       = map (\<lambda>n. ascii ''square_'' @ n) SQUARE_NAMES"
  using keyboard_shape [of game] keyboard_callbacks [of game] keyboard_distinct [of game]
    keyboard_squares [of game]
  by blast

section \<open>Properties of the handlers\<close>

text \<open>
  C1. A /move command with a token should reach a handler that looks the game up and
  calls \<open>make_move\<close>. No handler registered by \<open>main\<close> accepts it: whatever the token,
  the update is handled by none.
\<close>

theorem move_command_unhandled:
  "dispatch main_handlers (Command (ascii ''move'') (token # args)) = None"
  by (simp add: main_handlers_def ascii_def lower_def lower_char_def)

text \<open>
  C7. Where the user has a game, a new game puts a freshly constructed game in its place:
  the board is the starting position, no square is selected and no message id is set.
  The handler's result is the same whatever the game it replaces was, so nothing of it is
  carried over; the message id the handler then records is that of the board it has just
  sent.
\<close>

theorem newgame_replaces:
  "create_game L eng (gs(uid \<mapsto> old)) uid uid =
     Some \<lparr>board = new_board L, user_id = uid, user_color = White, current_message_id = None,
           selected_square = None, engine = eng\<rparr>
   \<and> newgame_command L eng env (gs(uid \<mapsto> old)) uid = newgame_command L eng env (gs(uid := None)) uid
   \<and> map_option board (newgame_command L eng env (gs(uid \<mapsto> old)) uid uid) = Some (new_board L)
   \<and> map_option selected_square (newgame_command L eng env (gs(uid \<mapsto> old)) uid uid) = Some None
   \<and> map_option current_message_id (newgame_command L eng env (gs(uid \<mapsto> old)) uid uid)
       = Some (if image_ok env then sent_id env else None)"
  by (auto simp: create_game_def newgame_command_def ChessGame_init_def Let_def
      split: option.splits)

text \<open>
  C4. A token that parses neither as SAN nor as UCI, or that parses to a move that is not
  legal on the board, makes \<open>make_move\<close> return (False, None) and leave the game as it
  was: board, selected square and message id.
\<close>

theorem make_move_rejects:
  assumes "(parse_san L (board game) tok = None \<and> from_uci L tok = None)
     \<or> (\<exists>m. parse_token L (board game) tok = Some m \<and> m \<notin> set (legal_moves L (board game)))"
  shows "make_move L r game tok = (game, False, None)"
  using assms by (auto simp: make_move_def parse_token_def split: option.splits)

theorem make_move_rejects_witness:
  "(parse_san pawn_chess (board (ChessGame_init pawn_chess 7 None)) (ascii ''zz'') = None
    \<and> from_uci pawn_chess (ascii ''zz'') = None)
   \<and> make_move pawn_chess 0 (ChessGame_init pawn_chess 7 None) (ascii ''zz'')
       = (ChessGame_init pawn_chess 7 None, False, None)
   \<and> (parse_token pawn_chess (board (ChessGame_init pawn_chess 7 None)) (ascii ''e2e5'')
        = Some (Move 12 36 None)
    \<and> Move 12 36 None \<notin> set (legal_moves pawn_chess (board (ChessGame_init pawn_chess 7 None))))
   \<and> make_move pawn_chess 0 (ChessGame_init pawn_chess 7 None) (ascii ''e2e5'')
       = (ChessGame_init pawn_chess 7 None, False, None)"
proof -
  have malformed:
    "parse_san pawn_chess (board (ChessGame_init pawn_chess 7 None)) (ascii ''zz'') = None
     \<and> from_uci pawn_chess (ascii ''zz'') = None"
    by code_simp
  have illegal:
    "parse_token pawn_chess (board (ChessGame_init pawn_chess 7 None)) (ascii ''e2e5'')
       = Some (Move 12 36 None)
     \<and> Move 12 36 None \<notin> set (legal_moves pawn_chess (board (ChessGame_init pawn_chess 7 None)))"
    by code_simp
  have r1: "make_move pawn_chess 0 (ChessGame_init pawn_chess 7 None) (ascii ''zz'')
       = (ChessGame_init pawn_chess 7 None, False, None)"
    by (rule make_move_rejects [OF disjI1 [OF malformed]])
  from illegal have ex:
    "\<exists>m. parse_token pawn_chess (board (ChessGame_init pawn_chess 7 None)) (ascii ''e2e5'') = Some m
       \<and> m \<notin> set (legal_moves pawn_chess (board (ChessGame_init pawn_chess 7 None)))"
    by blast
  have r2: "make_move pawn_chess 0 (ChessGame_init pawn_chess 7 None) (ascii ''e2e5'')
       = (ChessGame_init pawn_chess 7 None, False, None)"
    by (rule make_move_rejects [OF disjI2 [OF ex]])
  from malformed illegal r1 r2 show ?thesis by blast
qed

lemma cleanup_removes:
  "remove_ok env (Ogg uid) \<Longrightarrow> remove_ok env (Wav uid) \<Longrightarrow>
   Ogg uid \<notin> cleanup env uid fs \<and> Wav uid \<notin> cleanup env uid fs"
  by (simp add: cleanup_def remove_if_exists_def)

text \<open>
  C8, as amended. When the voice handler gets as far as the download and neither removal
  fails, both temporary files of the user are gone when the handler ends, whichever way
  the download, the conversion, the recognition and the move went.
\<close>

theorem temp_files_removed:
  assumes "reaches_download env w uid" and "remove_ok env (Ogg uid)" and "remove_ok env (Wav uid)"
  shows "Ogg uid \<notin> temp_files (handle_voice_message L U env w uid)
     \<and> Wav uid \<notin> temp_files (handle_voice_message L U env w uid)"
proof -
  from assms(1) obtain game where g: "games w uid = Some game" and a: "attachment env"
    by (auto simp: reaches_download_def)
  have "temp_files (handle_voice_message L U env w uid)
      = cleanup env uid (temp_files (voice_try L U env w uid game))"
    using g a by (simp add: handle_voice_message_def Let_def)
  with assms(2,3) show ?thesis by (simp add: cleanup_removes)
qed

theorem temp_files_removed_witness:
  "reaches_download (voice_heard (ascii ''e2 e4'')) started 7
   \<and> remove_ok (voice_heard (ascii ''e2 e4'')) (Ogg 7)
   \<and> remove_ok (voice_heard (ascii ''e2 e4'')) (Wav 7)
   \<and> Ogg 7 \<notin> temp_files (handle_voice_message pawn_chess no_unicode
         (voice_heard (ascii ''e2 e4'')) started 7)
   \<and> Wav 7 \<notin> temp_files (handle_voice_message pawn_chess no_unicode
         (voice_heard (ascii ''e2 e4'')) started 7)"
proof -
  have h1: "reaches_download (voice_heard (ascii ''e2 e4'')) started 7"
    by (simp add: reaches_download_def voice_heard_def started_def newgame_command_def
        create_game_def io_fine_def)
  have h2: "remove_ok (voice_heard (ascii ''e2 e4'')) (Ogg 7)"
    and h3: "remove_ok (voice_heard (ascii ''e2 e4'')) (Wav 7)"
    by (simp_all add: voice_heard_def)
  from h1 h2 h3 temp_files_removed [OF h1 h2 h3, of pawn_chess no_unicode]
  show ?thesis by blast
qed

text \<open>
  C8 as stated fails: the handler gets as far as the download, the removal of the
  downloaded file raises, and both files are still there when the handler ends.
\<close>

theorem removal_failure_leaves_files:
  "reaches_download ((voice_heard (ascii ''e2 e4''))\<lparr>remove_ok := (\<lambda>p. p \<noteq> Ogg 7)\<rparr>) started 7
   \<and> Ogg 7 \<in> temp_files (handle_voice_message pawn_chess no_unicode
        ((voice_heard (ascii ''e2 e4''))\<lparr>remove_ok := (\<lambda>p. p \<noteq> Ogg 7)\<rparr>) started 7)
   \<and> Wav 7 \<in> temp_files (handle_voice_message pawn_chess no_unicode
        ((voice_heard (ascii ''e2 e4''))\<lparr>remove_ok := (\<lambda>p. p \<noteq> Ogg 7)\<rparr>) started 7)"
  by code_simp

text \<open>
  Taps alone keep the invariant: a new game has no selection, and the tap handler takes a
  game that satisfies it to one that does. A callback query is accepted by no handler
  that \<open>main\<close> registers.
\<close>

lemma new_game_selection_ok: "selection_ok L (ChessGame_init L uid eng)"
  by (simp add: selection_ok_def ChessGame_init_def)

lemma tap_keeps_selection_ok:
  assumes "gs uid = Some g" and "selection_ok L g"
    and "handle_square_selection L env gs uid d uid = Some g'"
  shows "selection_ok L g'"
  using assms
  by (auto simp: handle_square_selection_def publish_def selection_ok_def Let_def
      split: option.splits sum.splits if_splits prod.splits)

lemma callback_query_unhandled: "dispatch main_handlers (CallbackQuery d) = None"
  by (simp add: main_handlers_def)

lemma make_move_selected:
  "make_move L r g tok = (g1, ok, reply) \<Longrightarrow> selected_square g1 = selected_square g"
  by (auto simp: make_move_def Let_def split: option.splits sum.splits if_splits)

lemma voice_keeps_selected_square:
  assumes "games w uid = Some g" and "games (handle_voice_message L U env w uid) uid = Some g'"
  shows "selected_square g' = selected_square g"
  using assms
  by (auto simp: handle_voice_message_def voice_try_def publish_def Let_def
      split: option.splits if_splits prod.splits dest: make_move_selected)

text \<open>
  The handlers as written, apart from what \<open>main\<close> registers: were a tap on e2 to
  reach \<open>handle_square_selection\<close>, the voice move "e2 e4" after it would leave e2
  selected and empty.
\<close>

lemma stale_selection_after_voice:
  "(case games (handle_voice_message pawn_chess no_unicode (voice_heard (ascii ''e2 e4'')) tapped 7) 7 of
      None \<Rightarrow> False
    | Some game \<Rightarrow>
        selected_square game = Some 12
        \<and> piece_at pawn_chess (board game) 12 = None
        \<and> \<not> selection_ok pawn_chess game)
   \<and> (case games tapped 7 of
      None \<Rightarrow> False
    | Some game \<Rightarrow> selected_square game = Some 12 \<and> selection_ok pawn_chess game)"
  by code_simp







end
